theory Spec2Isabelle
  imports Complex_Main
begin

section \<open>Numbers, colours and textures\<close>

text \<open>
  The effect of \<^verbatim>\<open>src/trail-shader/trail-effect.ts\<close> is embedded with explicit state
  passing. JavaScript numbers and GLSL floats are modelled as real numbers: rounding,
  NaN and the infinities are outside the model. A GLSL \<^verbatim>\<open>vec3\<close> or \<^verbatim>\<open>vec4\<close>
  is a tuple of reals, and the contents of a texture are the function from a texture
  coordinate to the colour a sampler reads there.
\<close>

type_synonym vec2 = "real \<times> real"
type_synonym vec3 = "real \<times> real \<times> real"
type_synonym vec4 = "real \<times> real \<times> real \<times> real"
type_synonym image = "vec2 \<Rightarrow> vec4"

text \<open>The swizzle \<^verbatim>\<open>c.rgb\<close>.\<close>

definition rgb :: "vec4 \<Rightarrow> vec3" where
  "rgb c = (case c of (r, g, b, a) \<Rightarrow> (r, g, b))"

text \<open>The GLSL constructor \<^verbatim>\<open>vec4(v, a)\<close> from a \<^verbatim>\<open>vec3\<close> and a float.\<close>

definition vec4_of :: "vec3 \<Rightarrow> real \<Rightarrow> vec4" where
  "vec4_of v a = (case v of (r, g, b) \<Rightarrow> (r, g, b, a))"

text \<open>The GLSL builtin \<^verbatim>\<open>mix(x, y, a) = x * (1 - a) + y * a\<close>, on each component.\<close>

definition mix :: "vec3 \<Rightarrow> vec3 \<Rightarrow> real \<Rightarrow> vec3" where
  "mix x y a =
     (case x of (x1, x2, x3) \<Rightarrow>
      case y of (y1, y2, y3) \<Rightarrow>
        (x1 * (1 - a) + y1 * a, x2 * (1 - a) + y2 * a, x3 * (1 - a) + y3 * a))"

text \<open>
  The effect allocates two \<^verbatim>\<open>WebGLRenderTarget\<close> objects in its constructor; every
  other render target belongs to the host (the composer's input buffer). A render target
  and its \<^verbatim>\<open>texture\<close> are identified, and a sampler uniform holds a reference to a
  texture or \<^verbatim>\<open>null\<close>.
\<close>

datatype own_target = TargetOne | TargetTwo

datatype render_target = Own own_target | Host nat

type_synonym texture = "render_target option"

text \<open>
  \<^verbatim>\<open>BlendFunction\<close> of the postprocessing library, with the members the repository
  names.
\<close>

datatype blend_function =
    SKIP | ADD | ALPHA | AVERAGE | COLOR | COLOR_BURN | COLOR_DODGE | DARKEN
  | DIFFERENCE | DIVIDE | DST | EXCLUSION | HARD_LIGHT | HARD_MIX | HUE | INVERT
  | INVERT_RGB | LIGHTEN | LINEAR_BURN | LINEAR_DODGE | LINEAR_LIGHT | LUMINOSITY
  | MULTIPLY | NEGATION | NORMAL | OVERLAY | PIN_LIGHT | REFLECT | SATURATION
  | SCREEN | SOFT_LIGHT | SRC | SUBTRACT | VIVID_LIGHT

text \<open>
  The four uniforms both shaders declare. The effect keeps two such tables: the
  \<^verbatim>\<open>uniforms\<close> map of the \<^verbatim>\<open>Effect\<close> base class, read by \<^verbatim>\<open>mainImageShader\<close>,
  and the uniforms of the material of \<^verbatim>\<open>postFXMesh\<close>, read by \<^verbatim>\<open>fragmentShader\<close>.
\<close>

record shader_uniforms =
  currentFrame :: texture
  previousFrame :: texture
  trailAmount :: real
  trailEnabled :: bool

section \<open>The renderer\<close>

text \<open>
  The part of \<^verbatim>\<open>THREE.WebGLRenderer\<close> the effect uses: the active render target
  (\<^verbatim>\<open>null\<close>, here \<open>None\<close>, is the canvas), the drawing buffer size, the clear colour,
  and the contents of every render target's texture. \<open>emptyTexel\<close> is what a sampler
  bound to \<^verbatim>\<open>null\<close> reads, and \<open>freshTexel\<close> what a texture reads once its memory
  has been released and is allocated anew. \<open>drawCalls\<close> records, for every
  \<^verbatim>\<open>render\<close> of the effect's full-screen scene, the target drawn into and the uniforms
  the draw used.
\<close>

record webgl_renderer =
  currentRenderTarget :: "render_target option"
  drawingBufferSize :: "real \<times> real"
  clearColor :: vec4
  emptyTexel :: vec4
  freshTexel :: vec4
  images :: "render_target \<Rightarrow> image"
  drawCalls :: "(render_target option \<times> shader_uniforms) list"

definition getRenderTarget :: "webgl_renderer \<Rightarrow> render_target option" where
  "getRenderTarget r = currentRenderTarget r"

definition setRenderTarget :: "webgl_renderer \<Rightarrow> render_target option \<Rightarrow> webgl_renderer" where
  "setRenderTarget r t = r\<lparr>currentRenderTarget := t\<rparr>"

text \<open>
  \<^verbatim>\<open>renderer.clear()\<close> fills the active render target with the clear colour. The
  contents of the canvas are not tracked.
\<close>

definition clear :: "webgl_renderer \<Rightarrow> webgl_renderer" where
  "clear r =
     (case currentRenderTarget r of
        None \<Rightarrow> r
      | Some t \<Rightarrow> r\<lparr>images := (images r)(t := (\<lambda>uv. clearColor r))\<rparr>)"

text \<open>\<^verbatim>\<open>texture2D(sampler, uv)\<close>, with the sampler's binding resolved in the renderer.\<close>

definition texture2D :: "webgl_renderer \<Rightarrow> texture \<Rightarrow> vec2 \<Rightarrow> vec4" where
  "texture2D r t uv = (case t of None \<Rightarrow> emptyTexel r | Some b \<Rightarrow> images r b uv)"

section \<open>The shaders\<close>

text \<open>\<^verbatim>\<open>fragmentShader\<close>: the value of \<^verbatim>\<open>gl_FragColor\<close> at the coordinate \<open>vUv\<close>.\<close>

definition fragmentShader :: "shader_uniforms \<Rightarrow> webgl_renderer \<Rightarrow> vec2 \<Rightarrow> vec4" where
  "fragmentShader u r vUv =
     (let current = texture2D r (currentFrame u) vUv in
      if trailEnabled u then
        (let previous = texture2D r (previousFrame u) vUv;
             decay = exp (- trailAmount u * 0.2);
             blended = mix (rgb current) (rgb previous) decay
         in vec4_of blended 1.0)
      else current)"

text \<open>\<^verbatim>\<open>mainImageShader\<close>: the value of \<^verbatim>\<open>outputColor\<close> that \<^verbatim>\<open>mainImage\<close> returns.\<close>

definition mainImageShader ::
  "shader_uniforms \<Rightarrow> webgl_renderer \<Rightarrow> vec4 \<Rightarrow> vec2 \<Rightarrow> vec4" where
  "mainImageShader u r inputColor uv =
     (let current = texture2D r (currentFrame u) uv in
      if trailEnabled u then
        (let previous = texture2D r (previousFrame u) uv;
             decay = exp (- trailAmount u * 0.2);
             blended = mix (rgb current) (rgb previous) decay
         in vec4_of blended 1.0)
      else current)"

text \<open>
  The material of the full-screen quad is created with \<^verbatim>\<open>transparent: true\<close>, so a
  fragment is composited over the pixel already in the target with three.js' normal
  blending: colour by source alpha, alpha by one.
\<close>

definition normalBlending :: "vec4 \<Rightarrow> vec4 \<Rightarrow> vec4" where
  "normalBlending src dst =
     (case src of (sr, sg, sb, sa) \<Rightarrow>
      case dst of (dr, dg, db, da) \<Rightarrow>
        (sr * sa + dr * (1 - sa), sg * sa + dg * (1 - sa), sb * sa + db * (1 - sa),
         sa + da * (1 - sa)))"

text \<open>
  \<^verbatim>\<open>renderer.render(this.postFXScene, this.orthoCamera)\<close>: the quad covers the whole
  target, so every pixel of the active target receives the fragment shader's colour,
  computed from the textures as they are before the draw. The composer that drives the
  effect switches the renderer's automatic clearing off.
\<close>

definition render :: "webgl_renderer \<Rightarrow> shader_uniforms \<Rightarrow> webgl_renderer" where
  "render r u =
     (let r' = r\<lparr>drawCalls := drawCalls r @ [(currentRenderTarget r, u)]\<rparr> in
      case currentRenderTarget r of
        None \<Rightarrow> r'
      | Some t \<Rightarrow>
          r'\<lparr>images := (images r)
                 (t := (\<lambda>uv. normalBlending (fragmentShader u r uv) (images r t uv)))\<rparr>)"

section \<open>The effect\<close>

text \<open>
  \<^verbatim>\<open>TrailEffectOptions\<close>: every field may be absent (\<^verbatim>\<open>undefined\<close>, here \<open>None\<close>).
\<close>

record trail_effect_options =
  trailAmount_opt :: "real option"
  trailEnabled_opt :: "bool option"
  resolutionScale_opt :: "real option"
  blendFunction_opt :: "blend_function option"

text \<open>
  The fields of \<^verbatim>\<open>TrailEffect\<close>. \<open>renderTargetA\<close> and \<open>renderTargetB\<close> are references
  to the two render target objects, whose \<^verbatim>\<open>width\<close> and \<^verbatim>\<open>height\<close> are kept in
  \<open>targetSize\<close>. \<open>localRenderer\<close> tells whether \<^verbatim>\<open>_localRenderer\<close> is set (one renderer
  is modelled, so the reference needs no more than that). \<open>own_blendFunction\<close> is
  \<^verbatim>\<open>_blendFunction\<close>, \<open>blendMode\<close> is \<^verbatim>\<open>blendMode.blendFunction\<close> of the base class,
  \<open>uniforms\<close> is the base class's uniform map and \<open>material_uniforms\<close> the uniforms of
  \<^verbatim>\<open>postFXMesh.material\<close>, which is a \<^verbatim>\<open>ShaderMaterial\<close> from the constructor on.
\<close>

record trail_effect =
  renderTargetA :: own_target
  renderTargetB :: own_target
  targetSize :: "own_target \<Rightarrow> int \<times> int"
  resolutionScale :: real
  localRenderer :: bool
  own_blendFunction :: blend_function
  blendMode :: blend_function
  uniforms :: shader_uniforms
  material_uniforms :: shader_uniforms

definition constructor :: "trail_effect_options \<Rightarrow> trail_effect" where
  "constructor options =
     (let trailAmount' = (case trailAmount_opt options of None \<Rightarrow> 95 | Some v \<Rightarrow> v);
          trailEnabled' = (case trailEnabled_opt options of None \<Rightarrow> True | Some v \<Rightarrow> v);
          resolutionScale' = (case resolutionScale_opt options of None \<Rightarrow> 0.5 | Some v \<Rightarrow> v);
          blendFunction' = (case blendFunction_opt options of None \<Rightarrow> LIGHTEN | Some v \<Rightarrow> v)
      in \<lparr>renderTargetA = TargetOne,
          renderTargetB = TargetTwo,
          targetSize = (\<lambda>t. (1, 1)),
          resolutionScale = resolutionScale',
          localRenderer = False,
          own_blendFunction = blendFunction',
          blendMode = blendFunction',
          uniforms = \<lparr>currentFrame = None, previousFrame = None,
                      trailAmount = trailAmount' / 100, trailEnabled = trailEnabled'\<rparr>,
          material_uniforms = \<lparr>currentFrame = None, previousFrame = None,
                      trailAmount = trailAmount' / 100, trailEnabled = trailEnabled'\<rparr>\<rparr>)"

text \<open>
  \<^verbatim>\<open>WebGLRenderTarget.setSize\<close> of one of the two targets. When the width or the height
  changes, three.js stores the new size and disposes of the target, which makes the
  renderer release the texture: its former contents are lost. When both stay the same,
  nothing happens to the target.
\<close>

definition target_setSize ::
  "trail_effect \<Rightarrow> webgl_renderer \<Rightarrow> own_target \<Rightarrow> int \<Rightarrow> int \<Rightarrow> trail_effect \<times> webgl_renderer" where
  "target_setSize e r t w h =
     (if targetSize e t \<noteq> (w, h) then
        (e\<lparr>targetSize := (targetSize e)(t := (w, h))\<rparr>,
         r\<lparr>images := (images r)(Own t := (\<lambda>uv. freshTexel r))\<rparr>)
      else (e, r))"

definition clearRenderTargets :: "trail_effect \<Rightarrow> webgl_renderer \<Rightarrow> webgl_renderer" where
  "clearRenderTargets e r =
     (let oldTarget = getRenderTarget r;
          r1 = setRenderTarget r (Some (Own (renderTargetA e)));
          r2 = clear r1;
          r3 = setRenderTarget r2 (Some (Own (renderTargetB e)));
          r4 = clear r3
      in setRenderTarget r4 oldTarget)"

definition setSize ::
  "trail_effect \<Rightarrow> webgl_renderer \<Rightarrow> real \<Rightarrow> real \<Rightarrow> trail_effect \<times> webgl_renderer" where
  "setSize e r width height =
     (let scaledWidth = \<lfloor>width * resolutionScale e\<rfloor>;
          scaledHeight = \<lfloor>height * resolutionScale e\<rfloor>;
          (e1, r1) = target_setSize e r (renderTargetA e) scaledWidth scaledHeight;
          (e2, r2) = target_setSize e1 r1 (renderTargetB e1) scaledWidth scaledHeight
      in if localRenderer e2 then (e2, clearRenderTargets e2 r2) else (e2, r2))"

text \<open>
  \<^verbatim>\<open>initialize\<close>; \<^verbatim>\<open>super.initialize\<close> of the base class does nothing, and \<open>alpha\<close>
  and \<open>frameBufferType\<close> are only passed to it.
\<close>

definition initialize :: "trail_effect \<Rightarrow> webgl_renderer \<Rightarrow> trail_effect \<times> webgl_renderer" where
  "initialize e r =
     (let e1 = e\<lparr>localRenderer := True\<rparr>;
          size = drawingBufferSize r;
          (e2, r2) = setSize e1 r (fst size) (snd size)
      in (e2, clearRenderTargets e2 r2))"

definition swapRenderTargets :: "trail_effect \<Rightarrow> trail_effect" where
  "swapRenderTargets e = e\<lparr>renderTargetA := renderTargetB e, renderTargetB := renderTargetA e\<rparr>"

definition updateUniforms :: "trail_effect \<Rightarrow> render_target \<Rightarrow> trail_effect" where
  "updateUniforms e inputBuffer =
     (let inputTexture = Some inputBuffer;
          previousTexture = Some (Own (renderTargetB e))
      in e\<lparr>material_uniforms :=
             (material_uniforms e)\<lparr>currentFrame := inputTexture, previousFrame := previousTexture\<rparr>,
           uniforms :=
             (uniforms e)\<lparr>currentFrame := inputTexture, previousFrame := previousTexture\<rparr>\<rparr>)"

definition update ::
  "trail_effect \<Rightarrow> webgl_renderer \<Rightarrow> render_target \<Rightarrow> real \<Rightarrow> trail_effect \<times> webgl_renderer" where
  "update e r inputBuffer deltaTime =
     (let r1 = setRenderTarget r (Some (Own (renderTargetA e)));
          r2 = render r1 (material_uniforms e);
          e1 = swapRenderTargets e;
          e2 = updateUniforms e1 inputBuffer
      in (e2, r2))"

definition resetRenderTargets ::
  "trail_effect \<Rightarrow> webgl_renderer \<Rightarrow> trail_effect \<times> webgl_renderer" where
  "resetRenderTargets e r = (if localRenderer e then (e, clearRenderTargets e r) else (e, r))"

definition updateBlendFunction :: "trail_effect \<Rightarrow> blend_function \<Rightarrow> trail_effect" where
  "updateBlendFunction e blendFunction =
     e\<lparr>own_blendFunction := blendFunction, blendMode := blendFunction\<rparr>"

definition updateOptions ::
  "trail_effect \<Rightarrow> webgl_renderer \<Rightarrow> real option \<Rightarrow> bool option \<Rightarrow> real option \<Rightarrow>
     blend_function option \<Rightarrow> trail_effect \<times> webgl_renderer" where
  "updateOptions e r trailAmount' trailEnabled' resolutionScale' blendFunction' =
     (let e1 = (case trailAmount' of
                  None \<Rightarrow> e
                | Some v \<Rightarrow>
                    (let normalizedValue = v / 100 in
                     e\<lparr>uniforms := (uniforms e)\<lparr>trailAmount := normalizedValue\<rparr>,
                       material_uniforms := (material_uniforms e)\<lparr>trailAmount := normalizedValue\<rparr>\<rparr>));
          e2 = (case trailEnabled' of
                  None \<Rightarrow> e1
                | Some b \<Rightarrow>
                    e1\<lparr>uniforms := (uniforms e1)\<lparr>trailEnabled := b\<rparr>,
                       material_uniforms := (material_uniforms e1)\<lparr>trailEnabled := b\<rparr>\<rparr>);
          (e3, r3) = (case resolutionScale' of
                  None \<Rightarrow> (e2, r)
                | Some s \<Rightarrow>
                    if s \<noteq> resolutionScale e2 then
                      (let e' = e2\<lparr>resolutionScale := s\<rparr> in
                       if localRenderer e' then
                         (let size = drawingBufferSize r in setSize e' r (fst size) (snd size))
                       else (e', r))
                    else (e2, r));
          e4 = (case blendFunction' of
                  None \<Rightarrow> e3
                | Some f \<Rightarrow> if f \<noteq> own_blendFunction e3 then updateBlendFunction e3 f else e3)
      in (e4, r3))"

section \<open>Sequences of calls\<close>

text \<open>
  The calls a host can make on an effect, and what else it may do to the renderer between
  two calls (\<open>HostAction\<close>: any change of the renderer's state).
\<close>

datatype call =
    Initialize
  | Update render_target real
  | SetSize real real
  | ResetRenderTargets
  | UpdateOptions "real option" "bool option" "real option" "blend_function option"
  | HostAction "webgl_renderer \<Rightarrow> webgl_renderer"

fun perform :: "call \<Rightarrow> trail_effect \<times> webgl_renderer \<Rightarrow> trail_effect \<times> webgl_renderer" where
  "perform Initialize (e, r) = initialize e r"
| "perform (Update inputBuffer deltaTime) (e, r) = update e r inputBuffer deltaTime"
| "perform (SetSize width height) (e, r) = setSize e r width height"
| "perform ResetRenderTargets (e, r) = resetRenderTargets e r"
| "perform (UpdateOptions a b s f) (e, r) = updateOptions e r a b s f"
| "perform (HostAction h) (e, r) = (e, h r)"

fun run :: "call list \<Rightarrow> trail_effect \<times> webgl_renderer \<Rightarrow> trail_effect \<times> webgl_renderer" where
  "run [] s = s"
| "run (c # cs) s = run cs (perform c s)"




text \<open>
  Consecutive \<^verbatim>\<open>update\<close> calls, one per pair of an input buffer and a
  \<^verbatim>\<open>deltaTime\<close>.
\<close>

fun updates ::
  "trail_effect \<times> webgl_renderer \<Rightarrow> (render_target \<times> real) list \<Rightarrow>
     trail_effect \<times> webgl_renderer" where
  "updates s [] = s"
| "updates s (x # rest) = updates (update (fst s) (snd s) (fst x) (snd x)) rest"

text \<open>
  The draw calls that consecutive \<^verbatim>\<open>update\<close> calls issue, read off the effect alone:
  each call draws into \<open>renderTargetA\<close> with the material's uniforms as they stand, then
  swaps the targets and rebinds the textures.
\<close>

fun blendPasses ::
  "trail_effect \<Rightarrow> (render_target \<times> real) list \<Rightarrow> (render_target option \<times> shader_uniforms) list" where
  "blendPasses e [] = []"
| "blendPasses e (x # rest) =
     (Some (Own (renderTargetA e)), material_uniforms e)
       # blendPasses (updateUniforms (swapRenderTargets e) (fst x)) rest"

section \<open>Concrete inputs\<close>

text \<open>An options object with every field omitted.\<close>

definition noOptions :: trail_effect_options where
  "noOptions = \<lparr>trailAmount_opt = None, trailEnabled_opt = None,
                 resolutionScale_opt = None, blendFunction_opt = None\<rparr>"

text \<open>
  A renderer with an 800 by 600 drawing buffer, drawing into the host's target 1, whose
  textures all hold opaque red, clearing to transparent black.
\<close>

definition hostRenderer :: webgl_renderer where
  "hostRenderer = \<lparr>currentRenderTarget = Some (Host 1), drawingBufferSize = (800, 600),
                    clearColor = (0, 0, 0, 0), emptyTexel = (0, 0, 0, 1),
                    freshTexel = (0, 0, 0, 0),
                    images = (\<lambda>t uv. (1, 0, 0, 1)), drawCalls = []\<rparr>"


text \<open>
  The same renderer again, but the host's textures hold red at half opacity and the
  effect's two targets hold opaque green.
\<close>

definition translucentRenderer :: webgl_renderer where
  "translucentRenderer =
     hostRenderer\<lparr>images := (\<lambda>t uv. case t of Own x \<Rightarrow> (0, 1, 0, 1)
                                         | Host n \<Rightarrow> (1, 0, 0, 1 / 2))\<rparr>"

section \<open>Basic facts about the operations\<close>

lemma clearRenderTargets_target [simp]:
  "currentRenderTarget (clearRenderTargets e r) = currentRenderTarget r"
  by (simp add: clearRenderTargets_def setRenderTarget_def getRenderTarget_def clear_def)

lemma clearRenderTargets_fields [simp]:
  "drawingBufferSize (clearRenderTargets e r) = drawingBufferSize r"
  "clearColor (clearRenderTargets e r) = clearColor r"
  "emptyTexel (clearRenderTargets e r) = emptyTexel r"
  "freshTexel (clearRenderTargets e r) = freshTexel r"
  "drawCalls (clearRenderTargets e r) = drawCalls r"
  by (simp_all add: clearRenderTargets_def setRenderTarget_def getRenderTarget_def clear_def)

lemma clearRenderTargets_images:
  "images (clearRenderTargets e r) t =
     (if t = Own (renderTargetA e) \<or> t = Own (renderTargetB e) then (\<lambda>uv. clearColor r)
      else images r t)"
  by (simp add: clearRenderTargets_def setRenderTarget_def getRenderTarget_def clear_def)

lemma target_setSize_fields [simp]:
  "uniforms (fst (target_setSize e r t w h)) = uniforms e"
  "material_uniforms (fst (target_setSize e r t w h)) = material_uniforms e"
  "resolutionScale (fst (target_setSize e r t w h)) = resolutionScale e"
  "renderTargetA (fst (target_setSize e r t w h)) = renderTargetA e"
  "renderTargetB (fst (target_setSize e r t w h)) = renderTargetB e"
  "localRenderer (fst (target_setSize e r t w h)) = localRenderer e"
  "own_blendFunction (fst (target_setSize e r t w h)) = own_blendFunction e"
  "blendMode (fst (target_setSize e r t w h)) = blendMode e"
  "currentRenderTarget (snd (target_setSize e r t w h)) = currentRenderTarget r"
  "drawingBufferSize (snd (target_setSize e r t w h)) = drawingBufferSize r"
  "clearColor (snd (target_setSize e r t w h)) = clearColor r"
  "emptyTexel (snd (target_setSize e r t w h)) = emptyTexel r"
  "freshTexel (snd (target_setSize e r t w h)) = freshTexel r"
  "drawCalls (snd (target_setSize e r t w h)) = drawCalls r"
  by (simp_all add: target_setSize_def)

lemma target_setSize_targetSize [simp]:
  "targetSize (fst (target_setSize e r t w h)) x = (if x = t then (w, h) else targetSize e x)"
  by (simp add: target_setSize_def)

lemma target_setSize_images:
  "images (snd (target_setSize e r t w h)) x =
     (if x = Own t \<and> targetSize e t \<noteq> (w, h) then (\<lambda>uv. freshTexel r) else images r x)"
  by (simp add: target_setSize_def)

lemma setSize_fields [simp]:
  "uniforms (fst (setSize e r w h)) = uniforms e"
  "material_uniforms (fst (setSize e r w h)) = material_uniforms e"
  "resolutionScale (fst (setSize e r w h)) = resolutionScale e"
  "renderTargetA (fst (setSize e r w h)) = renderTargetA e"
  "renderTargetB (fst (setSize e r w h)) = renderTargetB e"
  "localRenderer (fst (setSize e r w h)) = localRenderer e"
  "own_blendFunction (fst (setSize e r w h)) = own_blendFunction e"
  "blendMode (fst (setSize e r w h)) = blendMode e"
  by (simp_all add: setSize_def split_beta Let_def)

lemma setSize_targetSize:
  "targetSize (fst (setSize e r w h)) t =
     (if t = renderTargetA e \<or> t = renderTargetB e
      then (\<lfloor>w * resolutionScale e\<rfloor>, \<lfloor>h * resolutionScale e\<rfloor>) else targetSize e t)"
  by (simp add: setSize_def split_beta Let_def)

lemma setSize_renderer_fields [simp]:
  "currentRenderTarget (snd (setSize e r w h)) = currentRenderTarget r"
  "drawingBufferSize (snd (setSize e r w h)) = drawingBufferSize r"
  "clearColor (snd (setSize e r w h)) = clearColor r"
  "emptyTexel (snd (setSize e r w h)) = emptyTexel r"
  "freshTexel (snd (setSize e r w h)) = freshTexel r"
  "drawCalls (snd (setSize e r w h)) = drawCalls r"
  by (simp_all add: setSize_def split_beta Let_def)

lemma setSize_images:
  "images (snd (setSize e r w h)) (Own t) =
     (if t = renderTargetA e \<or> t = renderTargetB e then
        (if localRenderer e then (\<lambda>uv. clearColor r)
         else if targetSize e t \<noteq> (\<lfloor>w * resolutionScale e\<rfloor>, \<lfloor>h * resolutionScale e\<rfloor>)
              then (\<lambda>uv. freshTexel r)
              else images r (Own t))
      else images r (Own t))"
  "images (snd (setSize e r w h)) (Host n) = images r (Host n)"
  by (auto simp: setSize_def split_beta Let_def clearRenderTargets_images target_setSize_images)


lemma update_effect: "fst (update e r x d) = updateUniforms (swapRenderTargets e) x"
  by (simp add: update_def Let_def)

lemma update_fields [simp]:
  "renderTargetA (fst (update e r x d)) = renderTargetB e"
  "renderTargetB (fst (update e r x d)) = renderTargetA e"
  "targetSize (fst (update e r x d)) = targetSize e"
  "resolutionScale (fst (update e r x d)) = resolutionScale e"
  "localRenderer (fst (update e r x d)) = localRenderer e"
  "currentFrame (material_uniforms (fst (update e r x d))) = Some x"
  "currentFrame (uniforms (fst (update e r x d))) = Some x"
  "previousFrame (material_uniforms (fst (update e r x d))) = Some (Own (renderTargetA e))"
  "previousFrame (uniforms (fst (update e r x d))) = Some (Own (renderTargetA e))"
  "trailEnabled (material_uniforms (fst (update e r x d))) = trailEnabled (material_uniforms e)"
  "trailEnabled (uniforms (fst (update e r x d))) = trailEnabled (uniforms e)"
  "trailAmount (material_uniforms (fst (update e r x d))) = trailAmount (material_uniforms e)"
  "trailAmount (uniforms (fst (update e r x d))) = trailAmount (uniforms e)"
  by (simp_all add: update_def updateUniforms_def swapRenderTargets_def Let_def)

lemma update_drawCalls:
  "drawCalls (snd (update e r x d)) =
     drawCalls r @ [(Some (Own (renderTargetA e)), material_uniforms e)]"
  by (simp add: update_def render_def setRenderTarget_def Let_def)

lemma update_renderer_fields [simp]:
  "clearColor (snd (update e r x d)) = clearColor r"
  "emptyTexel (snd (update e r x d)) = emptyTexel r"
  "freshTexel (snd (update e r x d)) = freshTexel r"
  "drawingBufferSize (snd (update e r x d)) = drawingBufferSize r"
  by (simp_all add: update_def render_def setRenderTarget_def Let_def)

lemma texture2D_setRenderTarget: "texture2D (setRenderTarget r t) b uv = texture2D r b uv"
  by (simp add: texture2D_def setRenderTarget_def split: option.split)

lemma fragmentShader_setRenderTarget:
  "fragmentShader u (setRenderTarget r t) uv = fragmentShader u r uv"
  by (simp add: fragmentShader_def texture2D_setRenderTarget Let_def)

lemma update_images:
  "images (snd (update e r x d)) t uv =
     (if t = Own (renderTargetA e)
      then normalBlending (fragmentShader (material_uniforms e) r uv) (images r t uv)
      else images r t uv)"
  using fragmentShader_setRenderTarget [of "material_uniforms e" r "Some (Own (renderTargetA e))" uv]
  by (simp add: update_def render_def Let_def setRenderTarget_def)

lemma fragmentShader_enabled:
  assumes "trailEnabled u"
    and "texture2D r (currentFrame u) uv = (cr, cg, cb, ca)"
    and "texture2D r (previousFrame u) uv = (pr, pg, pb, pa)"
  shows "fragmentShader u r uv =
     (cr * (1 - exp (- trailAmount u * 0.2)) + pr * exp (- trailAmount u * 0.2),
      cg * (1 - exp (- trailAmount u * 0.2)) + pg * exp (- trailAmount u * 0.2),
      cb * (1 - exp (- trailAmount u * 0.2)) + pb * exp (- trailAmount u * 0.2), 1)"
  using assms by (simp add: fragmentShader_def mix_def rgb_def vec4_of_def Let_def)

lemma mainImageShader_fragmentShader: "mainImageShader u r c uv = fragmentShader u r uv"
  by (simp add: mainImageShader_def fragmentShader_def)

lemma normalBlending_opaque: "normalBlending (x, y, z, 1) dst = (x, y, z, 1)"
  by (cases dst) (simp add: normalBlending_def)

lemma constructor_fields [simp]:
  "renderTargetA (constructor options) = TargetOne"
  "renderTargetB (constructor options) = TargetTwo"
  "targetSize (constructor options) t = (1, 1)"
  "localRenderer (constructor options) = False"
  "currentFrame (uniforms (constructor options)) = None"
  "previousFrame (uniforms (constructor options)) = None"
  "currentFrame (material_uniforms (constructor options)) = None"
  "previousFrame (material_uniforms (constructor options)) = None"
  by (simp_all add: constructor_def Let_def)

lemma constructor_noOptions [simp]:
  "trailAmount (uniforms (constructor noOptions)) = 95 / 100"
  "trailAmount (material_uniforms (constructor noOptions)) = 95 / 100"
  "trailEnabled (uniforms (constructor noOptions))"
  "trailEnabled (material_uniforms (constructor noOptions))"
  "resolutionScale (constructor noOptions) = 0.5"
  "blendMode (constructor noOptions) = LIGHTEN"
  "own_blendFunction (constructor noOptions) = LIGHTEN"
  by (simp_all add: constructor_def noOptions_def)

lemma hostRenderer_fields [simp]:
  "currentRenderTarget hostRenderer = Some (Host 1)"
  "drawingBufferSize hostRenderer = (800, 600)"
  "clearColor hostRenderer = (0, 0, 0, 0)"
  "emptyTexel hostRenderer = (0, 0, 0, 1)"
  "freshTexel hostRenderer = (0, 0, 0, 0)"
  "images hostRenderer t uv = (1, 0, 0, 1)"
  "drawCalls hostRenderer = []"
  by (simp_all add: hostRenderer_def)

lemma first_update_texture:
  "images (snd (update (constructor noOptions) hostRenderer (Host 0) 0)) (Own TargetOne) uv
     = (0, 0, 0, 1)"
  by (simp add: update_images fragmentShader_def texture2D_def mix_def rgb_def vec4_of_def
      normalBlending_def)

section \<open>The blend pass\<close>

text \<open>
  Claim C1. With \<open>trailEnabled\<close> set, both shaders compute
  \<open>decay = exp (- trailAmount * 0.2)\<close> from the stored (normalized) \<open>trailAmount\<close>
  uniform and return the linear interpolation of the colour channels of the sample of
  \<open>currentFrame\<close> towards those of the sample of \<open>previousFrame\<close> by \<open>decay\<close>, with
  alpha 1; and the full-screen pass of \<open>update\<close> writes exactly that colour, computed
  from the material's uniforms, at every coordinate of the target it draws into
  (\<open>renderTargetA\<close>).
\<close>

theorem blend_formula:
  assumes "trailEnabled u"
    and "texture2D r (currentFrame u) uv = (cr, cg, cb, ca)"
    and "texture2D r (previousFrame u) uv = (pr, pg, pb, pa)"
    and "decay = exp (- trailAmount u * 0.2)"
    and "material_uniforms e = u"
  shows "fragmentShader u r uv =
           (cr * (1 - decay) + pr * decay, cg * (1 - decay) + pg * decay,
            cb * (1 - decay) + pb * decay, 1)
       \<and> mainImageShader u r inputColor uv =
           (cr * (1 - decay) + pr * decay, cg * (1 - decay) + pg * decay,
            cb * (1 - decay) + pb * decay, 1)
       \<and> images (snd (update e r inputBuffer deltaTime)) (Own (renderTargetA e)) uv =
           (cr * (1 - decay) + pr * decay, cg * (1 - decay) + pg * decay,
            cb * (1 - decay) + pb * decay, 1)"
  using assms
  by (simp add: mainImageShader_fragmentShader fragmentShader_enabled update_images
      normalBlending_opaque)

text \<open>
  The second \<open>update\<close> of an effect built with the defaults, on a red input: the current
  sample is red, the previous one the opaque black the first call drew, and the pixel
  written is red weighted by \<open>1 - exp (- 0.19)\<close>.
\<close>

theorem blend_formula_witness:
  "trailEnabled (material_uniforms (fst (update (constructor noOptions) hostRenderer (Host 0) 0)))
   \<and> images (snd (update (fst (update (constructor noOptions) hostRenderer (Host 0) 0))
                 (snd (update (constructor noOptions) hostRenderer (Host 0) 0)) (Host 0) 0))
        (Own TargetTwo) (0, 0)
      = (1 - exp (- (19 / 100)), 0, 0, 1)"
proof -
  let ?e = "fst (update (constructor noOptions) hostRenderer (Host 0) 0)"
  let ?r = "snd (update (constructor noOptions) hostRenderer (Host 0) 0)"
  let ?u = "material_uniforms ?e"
  have en: "trailEnabled ?u"
    by simp
  have cur: "texture2D ?r (currentFrame ?u) (0, 0) = (1, 0, 0, 1)"
    by (simp add: texture2D_def update_images)
  have prev: "texture2D ?r (previousFrame ?u) (0, 0) = (0, 0, 0, 1)"
    by (simp add: texture2D_def first_update_texture)
  have amount: "trailAmount ?u = 95 / 100"
    by simp
  have target: "renderTargetA ?e = TargetTwo"
    by simp
  from blend_formula [OF en cur prev refl refl, where inputBuffer = "Host 0" and deltaTime = 0]
    amount target en
  show ?thesis by simp
qed

lemma translucentRenderer_fields [simp]:
  "currentRenderTarget translucentRenderer = Some (Host 1)"
  "clearColor translucentRenderer = (0, 0, 0, 0)"
  "emptyTexel translucentRenderer = (0, 0, 0, 1)"
  "images translucentRenderer (Own t) uv = (0, 1, 0, 1)"
  "images translucentRenderer (Host n) uv = (1, 0, 0, 1 / 2)"
  "drawCalls translucentRenderer = []"
  by (simp_all add: translucentRenderer_def)

lemma disabled_fields [simp]:
  "\<not> trailEnabled (uniforms (constructor (noOptions\<lparr>trailEnabled_opt := Some False\<rparr>)))"
  "\<not> trailEnabled (material_uniforms (constructor (noOptions\<lparr>trailEnabled_opt := Some False\<rparr>)))"
  by (simp_all add: constructor_def noOptions_def)

lemma fragmentShader_disabled:
  "\<not> trailEnabled u \<Longrightarrow> fragmentShader u r uv = texture2D r (currentFrame u) uv"
  by (simp add: fragmentShader_def)

lemma disabled_second_update_texture:
  "images (snd (update
       (fst (update (constructor (noOptions\<lparr>trailEnabled_opt := Some False\<rparr>))
               translucentRenderer (Host 0) 0))
       (snd (update (constructor (noOptions\<lparr>trailEnabled_opt := Some False\<rparr>))
               translucentRenderer (Host 0) 0)) (Host 0) 0))
     (Own TargetTwo) uv
   = (1 / 2, 1 / 2, 0, 1)"
  by (simp add: update_images fragmentShader_disabled texture2D_def normalBlending_def)

text \<open>
  Claim C2, amended. With \<open>trailEnabled\<close> unset, each shader returns the sample of
  \<open>currentFrame\<close> unchanged, whatever \<open>previousFrame\<close> is bound to: the previous frame
  is not sampled and no decay is applied. The colour the effect's own shader,
  \<open>mainImageShader\<close>, returns with the uniforms \<open>update\<close> has left is the pixel of the
  call's input buffer, whatever the textures hold (\<open>r'\<close> is any state of the renderer's
  memory). The pixel \<open>update\<close> draws into \<open>renderTargetA\<close> is the sample of the material's
  \<open>currentFrame\<close> composited over the pixel the target held, by the sample's alpha; it is
  the sample itself where the sample is opaque.
\<close>

theorem bypass_identity:
  assumes "\<not> trailEnabled u"
    and "\<not> trailEnabled (uniforms e)"
    and "\<not> trailEnabled (material_uniforms e)"
  shows "fragmentShader u r uv = texture2D r (currentFrame u) uv
       \<and> mainImageShader u r inputColor uv = texture2D r (currentFrame u) uv
       \<and> fragmentShader (u\<lparr>previousFrame := p\<rparr>) r uv = fragmentShader u r uv
       \<and> mainImageShader (u\<lparr>previousFrame := p\<rparr>) r inputColor uv
           = mainImageShader u r inputColor uv
       \<and> mainImageShader (uniforms (fst (update e r inputBuffer deltaTime))) r' inputColor uv
           = images r' inputBuffer uv
       \<and> images (snd (update e r inputBuffer deltaTime)) (Own (renderTargetA e)) uv
           = normalBlending (texture2D r (currentFrame (material_uniforms e)) uv)
               (images r (Own (renderTargetA e)) uv)
       \<and> normalBlending (cr, cg, cb, 1) dst = (cr, cg, cb, 1)"
  using assms
  by (simp add: mainImageShader_def fragmentShader_def texture2D_def update_images
      normalBlending_opaque)

text \<open>
  A disabled effect on a half transparent red input, its targets holding green: after a
  first frame has bound the input, the effect's shader returns the input pixel, and the
  second frame draws red over green at half weight into the second target.
\<close>

theorem bypass_identity_witness:
  "\<not> trailEnabled (uniforms (fst (update (constructor (noOptions\<lparr>trailEnabled_opt := Some False\<rparr>))
                     translucentRenderer (Host 0) 0)))
   \<and> mainImageShader
        (uniforms (fst (update
           (fst (update (constructor (noOptions\<lparr>trailEnabled_opt := Some False\<rparr>))
                   translucentRenderer (Host 0) 0))
           (snd (update (constructor (noOptions\<lparr>trailEnabled_opt := Some False\<rparr>))
                   translucentRenderer (Host 0) 0)) (Host 0) 0)))
        translucentRenderer (0, 0, 0, 0) (0, 0)
      = (1, 0, 0, 1 / 2)
   \<and> images (snd (update
           (fst (update (constructor (noOptions\<lparr>trailEnabled_opt := Some False\<rparr>))
                   translucentRenderer (Host 0) 0))
           (snd (update (constructor (noOptions\<lparr>trailEnabled_opt := Some False\<rparr>))
                   translucentRenderer (Host 0) 0)) (Host 0) 0))
        (Own TargetTwo) (0, 0)
      = (1 / 2, 1 / 2, 0, 1)"
proof -
  let ?c = "constructor (noOptions\<lparr>trailEnabled_opt := Some False\<rparr>)"
  let ?e = "fst (update ?c translucentRenderer (Host 0) 0)"
  let ?r = "snd (update ?c translucentRenderer (Host 0) 0)"
  have off: "\<not> trailEnabled (uniforms ?e)" and off': "\<not> trailEnabled (material_uniforms ?e)"
    by simp_all
  have cur: "texture2D ?r (currentFrame (material_uniforms ?e)) (0, 0) = (1, 0, 0, 1 / 2)"
    by (simp add: texture2D_def update_images)
  have dst: "images ?r (Own TargetTwo) (0, 0) = (0, 1, 0, 1)"
    by (simp add: update_images)
  have target: "renderTargetA ?e = TargetTwo"
    by simp
  from bypass_identity [OF off off off', where r = ?r and inputBuffer = "Host 0"
      and deltaTime = 0 and r' = translucentRenderer and inputColor = "(0, 0, 0, 0)"
      and uv = "(0, 0)"] off cur dst target
  show ?thesis by (simp add: normalBlending_def)
qed

text \<open>
  Claim C2 as it is written fails for the buffer a disabled \<open>update\<close> draws: in that
  second frame the material's \<open>currentFrame\<close> is the call's own input, yet the target
  receives red mixed with the green it held, not the input pixel.
\<close>

theorem bypass_buffer_counterexample:
  "\<not> (images (snd (updates (constructor (noOptions\<lparr>trailEnabled_opt := Some False\<rparr>),
                             translucentRenderer) [(Host 0, 0), (Host 0, 0)]))
         (Own TargetTwo) (0, 0)
       = images (snd (updates (constructor (noOptions\<lparr>trailEnabled_opt := Some False\<rparr>),
                             translucentRenderer) [(Host 0, 0), (Host 0, 0)]))
           (Host 0) (0, 0))"
  by (simp add: disabled_second_update_texture) (simp add: update_images)

section \<open>Options\<close>

text \<open>
  Claim C5. Whatever number \<open>v\<close> the caller gives as \<open>trailAmount\<close>, to the constructor
  or to \<open>updateOptions\<close>, both uniform tables store \<open>v / 100\<close>; no range check is applied.
\<close>

theorem decayAmount_normalized:
  "trailAmount (uniforms (constructor (options\<lparr>trailAmount_opt := Some v\<rparr>))) = v / 100
   \<and> trailAmount (material_uniforms (constructor (options\<lparr>trailAmount_opt := Some v\<rparr>)))
       = v / 100
   \<and> trailAmount (uniforms (fst (updateOptions e r (Some v) b s f))) = v / 100
   \<and> trailAmount (material_uniforms (fst (updateOptions e r (Some v) b s f))) = v / 100"
  by (simp add: constructor_def updateOptions_def updateBlendFunction_def split_beta Let_def
      split: option.split)

theorem decayAmount_normalized_witness:
  "trailAmount (uniforms (constructor (noOptions\<lparr>trailAmount_opt := Some 250\<rparr>))) = 5 / 2
   \<and> trailAmount (material_uniforms
        (fst (updateOptions (constructor noOptions) hostRenderer (Some (- 40)) None None None)))
       = - (2 / 5)"
  using decayAmount_normalized [where options = noOptions and v = 250]
    decayAmount_normalized [where e = "constructor noOptions" and r = hostRenderer
      and v = "- 40" and b = None and s = None and f = None]
  by simp

text \<open>
  Claim C8, amended. Constructed from an options object with every field omitted, the
  effect stores the decay amount 95 (as 95 / 100), is enabled, has resolution scale 0.5
  and blend function LIGHTEN, and its two render targets are 1 by 1.
\<close>

theorem constructor_defaults:
  "trailAmount (uniforms (constructor noOptions)) = 95 / 100
   \<and> trailAmount (material_uniforms (constructor noOptions)) = 95 / 100
   \<and> trailEnabled (uniforms (constructor noOptions))
   \<and> trailEnabled (material_uniforms (constructor noOptions))
   \<and> resolutionScale (constructor noOptions) = 0.5
   \<and> blendMode (constructor noOptions) = LIGHTEN
   \<and> own_blendFunction (constructor noOptions) = LIGHTEN
   \<and> targetSize (constructor noOptions) (renderTargetA (constructor noOptions)) = (1, 1)
   \<and> targetSize (constructor noOptions) (renderTargetB (constructor noOptions)) = (1, 1)"
  by (simp add: constructor_def noOptions_def)

text \<open>
  Claim C8 as it is written fails: the targets of a new effect have area 1, not 0.
\<close>

theorem constructor_zero_area_counterexample:
  "\<not> (fst (targetSize (constructor noOptions) (renderTargetA (constructor noOptions)))
        * snd (targetSize (constructor noOptions) (renderTargetA (constructor noOptions))) = 0)"
  by simp

section \<open>The active render target\<close>

text \<open>
  Claim C10. \<open>clearRenderTargets\<close> reads the renderer's active render target before it
  clears and sets it back before it returns, so that \<open>initialize\<close>, \<open>setSize\<close>,
  \<open>resetRenderTargets\<close> and \<open>updateOptions\<close>, which clear through it, leave the active
  render target as they found it.
\<close>

theorem active_target_restored:
  "currentRenderTarget (clearRenderTargets e r) = currentRenderTarget r
   \<and> currentRenderTarget (snd (initialize e r)) = currentRenderTarget r
   \<and> currentRenderTarget (snd (setSize e r w h)) = currentRenderTarget r
   \<and> currentRenderTarget (snd (resetRenderTargets e r)) = currentRenderTarget r
   \<and> currentRenderTarget (snd (updateOptions e r a b s f)) = currentRenderTarget r"
  by (simp add: initialize_def resetRenderTargets_def updateOptions_def split_beta Let_def
      split: option.split)

theorem active_target_restored_witness:
  "currentRenderTarget (snd (initialize (constructor noOptions) hostRenderer)) = Some (Host 1)"
  using active_target_restored [where e = "constructor noOptions" and r = hostRenderer]
  by simp

section \<open>Consecutive updates\<close>

lemma updates_append: "updates s (xs @ ys) = updates (updates s xs) ys"
  by (induction xs arbitrary: s) simp_all

lemma updates_take_Suc:
  assumes "K < length xs"
  shows "updates s (take (Suc K) xs) =
     update (fst (updates s (take K xs))) (snd (updates s (take K xs))) (fst (xs ! K)) (snd (xs ! K))"
  using assms by (simp add: take_Suc_conv_app_nth updates_append)

lemma updates_drawCalls:
  "drawCalls (snd (updates (e, r) xs)) = drawCalls r @ blendPasses e xs"
proof (induction xs arbitrary: e r)
  case Nil
  show ?case by simp
next
  case (Cons x xs)
  have "drawCalls (snd (updates (update e r (fst x) (snd x)) xs)) =
      drawCalls (snd (update e r (fst x) (snd x))) @ blendPasses (fst (update e r (fst x) (snd x))) xs"
    using Cons.IH [of "fst (update e r (fst x) (snd x))" "snd (update e r (fst x) (snd x))"]
    by simp
  then show ?case
    by (simp add: update_drawCalls update_effect)
qed

lemma length_blendPasses [simp]: "length (blendPasses e xs) = length xs"
  by (induction xs arbitrary: e) simp_all

lemma blendPasses_nth:
  "K < length xs \<Longrightarrow>
     blendPasses e xs ! K =
       (Some (Own (renderTargetA (fst (updates (e, r) (take K xs))))),
        material_uniforms (fst (updates (e, r) (take K xs))))"
proof (induction xs arbitrary: e r K)
  case Nil
  then show ?case by simp
next
  case (Cons x xs)
  show ?case
  proof (cases K)
    case 0
    then show ?thesis by simp
  next
    case (Suc J)
    let ?s = "update e r (fst x) (snd x)"
    from Suc Cons.prems have J: "J < length xs" by simp
    have next_effect: "updateUniforms (swapRenderTargets e) (fst x) = fst ?s"
      by (simp add: update_effect)
    have "blendPasses e (x # xs) ! K = blendPasses (fst ?s) xs ! J"
      by (simp add: Suc next_effect)
    also have "\<dots> = (Some (Own (renderTargetA (fst (updates (fst ?s, snd ?s) (take J xs))))),
        material_uniforms (fst (updates (fst ?s, snd ?s) (take J xs))))"
      by (rule Cons.IH [OF J])
    also have "updates (fst ?s, snd ?s) (take J xs) = updates (e, r) (take K (x # xs))"
      by (simp add: Suc)
    finally show ?thesis .
  qed
qed

text \<open>
  Claim C3. In a sequence of consecutive \<open>update\<close> calls, the target that call \<open>K\<close>
  draws into (the \<open>renderTargetA\<close> of the effect as call \<open>K\<close> finds it) is the texture
  that the draw of call \<open>K + 1\<close> reads as \<open>previousFrame\<close>. Each call swaps
  \<open>renderTargetA\<close> and \<open>renderTargetB\<close> after its draw and binds \<open>previousFrame\<close>, in
  both uniform tables, to the target it has just drawn into.
\<close>

theorem role_swap:
  assumes "Suc K < length inputs"
  shows "fst (drawCalls (snd (updates (e, r) inputs)) ! (length (drawCalls r) + K))
           = Some (Own (renderTargetA (fst (updates (e, r) (take K inputs)))))
       \<and> previousFrame (snd (drawCalls (snd (updates (e, r) inputs)) ! (length (drawCalls r) + Suc K)))
           = Some (Own (renderTargetA (fst (updates (e, r) (take K inputs)))))
       \<and> renderTargetA (fst (update e r inputBuffer deltaTime)) = renderTargetB e
       \<and> renderTargetB (fst (update e r inputBuffer deltaTime)) = renderTargetA e
       \<and> previousFrame (material_uniforms (fst (update e r inputBuffer deltaTime)))
           = Some (Own (renderTargetA e))
       \<and> previousFrame (uniforms (fst (update e r inputBuffer deltaTime)))
           = Some (Own (renderTargetA e))
       \<and> fst (last (drawCalls (snd (update e r inputBuffer deltaTime))))
           = Some (Own (renderTargetA e))"
proof -
  from assms have K: "K < length inputs" by simp
  have "fst (blendPasses e inputs ! K)
      = Some (Own (renderTargetA (fst (updates (e, r) (take K inputs)))))"
    by (simp add: blendPasses_nth [OF K, of e r])
  moreover have "previousFrame (snd (blendPasses e inputs ! Suc K))
      = Some (Own (renderTargetA (fst (updates (e, r) (take K inputs)))))"
    by (simp add: blendPasses_nth [OF assms, of e r] updates_take_Suc [OF K])
  ultimately show ?thesis
    by (simp add: updates_drawCalls update_drawCalls nth_append)
qed

theorem role_swap_witness:
  "fst (drawCalls (snd (updates (constructor noOptions, hostRenderer)
                          [(Host 0, 0), (Host 0, 0), (Host 0, 0)])) ! Suc 0)
     = Some (Own TargetTwo)
   \<and> previousFrame (snd (drawCalls (snd (updates (constructor noOptions, hostRenderer)
                          [(Host 0, 0), (Host 0, 0), (Host 0, 0)])) ! Suc (Suc 0)))
     = Some (Own TargetTwo)"
  using role_swap [where K = "Suc 0" and inputs = "[(Host 0, 0), (Host 0, 0), (Host 0, 0)]"
      and e = "constructor noOptions" and r = hostRenderer and inputBuffer = "Host 0"
      and deltaTime = 0]
  by simp

section \<open>The current frame of the blend pass\<close>

text \<open>
  Claim C4 does not hold of the code: \<open>update\<close> draws first and binds the textures
  afterwards. The draw of the first \<open>update\<close> after construction has \<open>currentFrame\<close>
  bound to \<^verbatim>\<open>null\<close>, although the call binds its input before it returns, and the
  draw of a later call has it bound to the input of the call before.
\<close>

theorem update_draws_before_binding:
  "currentFrame (snd (last (drawCalls (snd (update (constructor options) r inputBuffer deltaTime)))))
     = None
   \<and> currentFrame (material_uniforms (fst (update (constructor options) r inputBuffer deltaTime)))
     = Some inputBuffer
   \<and> currentFrame (snd (last (drawCalls (snd (updates (e, r) [(b1, d1), (b2, d2)])))))
     = Some b1"
  by (simp add: update_drawCalls)

section \<open>The size of the render targets\<close>


lemma updateOptions_targets [simp]:
  "renderTargetA (fst (updateOptions e r a b s f)) = renderTargetA e"
  "renderTargetB (fst (updateOptions e r a b s f)) = renderTargetB e"
  "localRenderer (fst (updateOptions e r a b s f)) = localRenderer e"
  by (simp_all add: updateOptions_def updateBlendFunction_def split_beta Let_def
      split: option.split)

lemma updateOptions_resolutionScale:
  "resolutionScale (fst (updateOptions e r a b s f)) =
     (case s of None \<Rightarrow> resolutionScale e | Some v \<Rightarrow> v)"
  by (simp add: updateOptions_def updateBlendFunction_def split_beta Let_def
      split: option.split)

lemma updateOptions_targetSize:
  "targetSize (fst (updateOptions e r a b s f)) t =
     (case s of
        None \<Rightarrow> targetSize e t
      | Some v \<Rightarrow>
          if v \<noteq> resolutionScale e \<and> localRenderer e \<and> (t = renderTargetA e \<or> t = renderTargetB e)
          then (\<lfloor>fst (drawingBufferSize r) * v\<rfloor>, \<lfloor>snd (drawingBufferSize r) * v\<rfloor>)
          else targetSize e t)"
  by (simp add: updateOptions_def updateBlendFunction_def split_beta Let_def
      setSize_targetSize split: option.split)

lemma resetRenderTargets_effect [simp]: "fst (resetRenderTargets e r) = e"
  by (simp add: resetRenderTargets_def)


lemma perform_unfold:
  "perform Initialize s = initialize (fst s) (snd s)"
  "perform (Update x d) s = update (fst s) (snd s) x d"
  "perform (SetSize w h) s = setSize (fst s) (snd s) w h"
  "perform ResetRenderTargets s = resetRenderTargets (fst s) (snd s)"
  "perform (UpdateOptions a b v f) s = updateOptions (fst s) (snd s) a b v f"
  "perform (HostAction g) s = (fst s, g (snd s))"
  by (cases s; simp)+

lemma initialize_fields [simp]:
  "resolutionScale (fst (initialize e r)) = resolutionScale e"
  "renderTargetA (fst (initialize e r)) = renderTargetA e"
  "renderTargetB (fst (initialize e r)) = renderTargetB e"
  "localRenderer (fst (initialize e r))"
  "uniforms (fst (initialize e r)) = uniforms e"
  "material_uniforms (fst (initialize e r)) = material_uniforms e"
  "drawingBufferSize (snd (initialize e r)) = drawingBufferSize r"
  "clearColor (snd (initialize e r)) = clearColor r"
  by (simp_all add: initialize_def split_beta Let_def)





lemma updateOptions_drawingBufferSize [simp]:
  "drawingBufferSize (snd (updateOptions e r a b s f)) = drawingBufferSize r"
  by (simp add: updateOptions_def split_beta Let_def split: option.split)

lemma resetRenderTargets_drawingBufferSize [simp]:
  "drawingBufferSize (snd (resetRenderTargets e r)) = drawingBufferSize r"
  by (simp add: resetRenderTargets_def)













section \<open>Resizing\<close>

lemma second_update_texture:
  "images (snd (update (fst (update (constructor noOptions) hostRenderer (Host 0) 0))
                 (snd (update (constructor noOptions) hostRenderer (Host 0) 0)) (Host 0) 0))
        (Own TargetTwo) uv
     = (1 - exp (- (19 / 100)), 0, 0, 1)"
  by (simp add: update_images fragmentShader_def texture2D_def mix_def rgb_def vec4_of_def
      normalBlending_def)

text \<open>
  Claim C7, amended. For every width and height, and in every state of the effect,
  \<open>setSize\<close> gives both render targets the floor of the width and of the height times the
  stored resolution scale and leaves \<open>renderTargetA\<close> and \<open>renderTargetB\<close> as they are. It
  fills both targets with the clear colour when a renderer has been stored by
  \<open>initialize\<close>. Before that it clears nothing: a target whose size changes loses its
  contents with the released texture, and a target whose size stays the same keeps them.
\<close>

theorem setSize_resizes:
  "targetSize (fst (setSize e r w h)) (renderTargetA e)
     = (\<lfloor>w * resolutionScale e\<rfloor>, \<lfloor>h * resolutionScale e\<rfloor>)
   \<and> targetSize (fst (setSize e r w h)) (renderTargetB e)
     = (\<lfloor>w * resolutionScale e\<rfloor>, \<lfloor>h * resolutionScale e\<rfloor>)
   \<and> renderTargetA (fst (setSize e r w h)) = renderTargetA e
   \<and> renderTargetB (fst (setSize e r w h)) = renderTargetB e
   \<and> images (snd (setSize e r w h)) (Own (renderTargetA e))
     = (if localRenderer e then (\<lambda>uv. clearColor r)
        else if targetSize e (renderTargetA e)
                  \<noteq> (\<lfloor>w * resolutionScale e\<rfloor>, \<lfloor>h * resolutionScale e\<rfloor>)
             then (\<lambda>uv. freshTexel r)
             else images r (Own (renderTargetA e)))
   \<and> images (snd (setSize e r w h)) (Own (renderTargetB e))
     = (if localRenderer e then (\<lambda>uv. clearColor r)
        else if targetSize e (renderTargetB e)
                  \<noteq> (\<lfloor>w * resolutionScale e\<rfloor>, \<lfloor>h * resolutionScale e\<rfloor>)
             then (\<lambda>uv. freshTexel r)
             else images r (Own (renderTargetB e)))"
  by (simp add: setSize_targetSize setSize_images)

text \<open>
  After \<open>initialize\<close>, \<open>setSize 1024 768\<close> gives 512 by 384 and the clear colour; on a
  new effect, \<open>setSize 800 600\<close> gives 400 by 300 and a released texture.
\<close>

theorem setSize_resizes_witness:
  "targetSize (fst (setSize (fst (initialize (constructor noOptions) hostRenderer))
       (snd (initialize (constructor noOptions) hostRenderer)) 1024 768)) TargetOne = (512, 384)
   \<and> images (snd (setSize (fst (initialize (constructor noOptions) hostRenderer))
       (snd (initialize (constructor noOptions) hostRenderer)) 1024 768)) (Own TargetOne) (0, 0)
      = clearColor hostRenderer
   \<and> targetSize (fst (setSize (constructor noOptions) hostRenderer 800 600)) TargetTwo
      = (400, 300)
   \<and> images (snd (setSize (constructor noOptions) hostRenderer 800 600)) (Own TargetTwo) (0, 0)
      = freshTexel hostRenderer"
  using setSize_resizes [where e = "fst (initialize (constructor noOptions) hostRenderer)"
      and r = "snd (initialize (constructor noOptions) hostRenderer)" and w = 1024 and h = 768]
    setSize_resizes [where e = "constructor noOptions" and r = hostRenderer
      and w = 800 and h = 600]
  by simp

text \<open>
  Claim C7 as it is written fails: before \<open>initialize\<close> no renderer is stored and
  \<open>setSize\<close> clears nothing. Two frames drawn into a new effect leave red in the
  second target, and \<open>setSize 2 2\<close>, which keeps the targets at 1 by 1 at the default
  scale, keeps it.
\<close>

theorem setSize_before_initialize_counterexample:
  "\<not> (images (snd (run [Update (Host 0) 0, Update (Host 0) 0, SetSize 2 2]
                     (constructor noOptions, hostRenderer))) (Own TargetTwo) (0, 0)
       = clearColor (snd (run [Update (Host 0) 0, Update (Host 0) 0, SetSize 2 2]
                     (constructor noOptions, hostRenderer))))"
  by (simp add: perform_unfold setSize_images second_update_texture)

section \<open>The resolution scale\<close>

text \<open>
  Claim C9, amended. \<open>updateOptions\<close> stores every resolution scale it is given as it is,
  with no clamping, and, when the value differs from the stored one and a renderer is
  known, sizes both render targets to the floor of the drawing buffer's width and height
  times that value; otherwise the sizes stay.
\<close>

theorem resolutionScale_unclamped:
  "resolutionScale (fst (updateOptions e r a b (Some v) f)) = v
   \<and> targetSize (fst (updateOptions e r a b (Some v) f)) (renderTargetA e)
     = (if v \<noteq> resolutionScale e \<and> localRenderer e
        then (\<lfloor>fst (drawingBufferSize r) * v\<rfloor>, \<lfloor>snd (drawingBufferSize r) * v\<rfloor>)
        else targetSize e (renderTargetA e))
   \<and> targetSize (fst (updateOptions e r a b (Some v) f)) (renderTargetB e)
     = (if v \<noteq> resolutionScale e \<and> localRenderer e
        then (\<lfloor>fst (drawingBufferSize r) * v\<rfloor>, \<lfloor>snd (drawingBufferSize r) * v\<rfloor>)
        else targetSize e (renderTargetB e))"
  by (simp add: updateOptions_resolutionScale updateOptions_targetSize)

text \<open>
  A quarter scale on an 800 by 600 drawing buffer gives 200 by 150, and a negative scale
  is stored as given.
\<close>

theorem resolutionScale_unclamped_witness:
  "resolutionScale (fst (updateOptions (fst (initialize (constructor noOptions) hostRenderer))
       (snd (initialize (constructor noOptions) hostRenderer)) None None (Some (1 / 4)) None))
     = 1 / 4
   \<and> targetSize (fst (updateOptions (fst (initialize (constructor noOptions) hostRenderer))
       (snd (initialize (constructor noOptions) hostRenderer)) None None (Some (1 / 4)) None))
       TargetOne = (200, 150)
   \<and> resolutionScale (fst (updateOptions (constructor noOptions) hostRenderer
       None None (Some (- 3)) None)) = - 3"
  using resolutionScale_unclamped [where e = "fst (initialize (constructor noOptions) hostRenderer)"
      and r = "snd (initialize (constructor noOptions) hostRenderer)" and a = None and b = None
      and v = "1 / 4" and f = None]
    resolutionScale_unclamped [where e = "constructor noOptions" and r = hostRenderer
      and a = None and b = None and v = "- 3" and f = None]
  by simp

text \<open>Claim C9 as it is written fails: a scale of 0 is stored as 0.\<close>

theorem resolutionScale_clamp_counterexample:
  "\<not> (0 < resolutionScale (fst (run [Initialize, UpdateOptions None None (Some 0) None]
              (constructor noOptions, hostRenderer)))
      \<and> resolutionScale (fst (run [Initialize, UpdateOptions None None (Some 0) None]
              (constructor noOptions, hostRenderer))) \<le> 1)"
  by (simp add: perform_unfold updateOptions_resolutionScale)

end
